theory Spec2Isabelle
  imports Main "HOL-Library.AList"
begin

section \<open>JavaScript values\<close>

text \<open>
  The functions of \<^verbatim>\<open>lib/connectionConfig/iothubConnectionConfig.ts\<close> are typed over
  strings, but they are written for callers that pass anything: they test their arguments
  for presence and for being objects, and they coerce fields with \<^verbatim>\<open>String(...)\<close>.
  The model therefore works on runtime values. An object is a plain object (default
  \<^verbatim>\<open>toString\<close>), kept as the list of its properties in insertion order.

  A number reaches this module in three ways only: \<^verbatim>\<open>typeof\<close> names its type, a
  condition asks whether it is truthy (it is unless it is zero or \<^verbatim>\<open>NaN\<close>), and
  \<^verbatim>\<open>String\<close> prints it. The model keeps of a number these two observations, the truth
  value and the text that \<^verbatim>\<open>String\<close> gives for it, and computes neither: the number
  \<^verbatim>\<open>1\<close> is \<open>JNum True ''1''\<close>, \<^verbatim>\<open>0\<close> is \<open>JNum False ''0''\<close>, \<^verbatim>\<open>1e21\<close> is
  \<open>JNum True ''1e+21''\<close> and \<^verbatim>\<open>NaN\<close> is \<open>JNum False ''NaN''\<close>.
\<close>

datatype jsval =
    JUndefined
  | JNull
  | JBool bool
  | JNum bool string
  | JStr string
  | JObj "(string \<times> jsval) list"

text \<open>\<^verbatim>\<open>typeof v\<close>; \<^verbatim>\<open>typeof null\<close> is \<^verbatim>\<open>"object"\<close>.\<close>

fun typeof :: "jsval \<Rightarrow> string" where
  "typeof JUndefined = ''undefined''"
| "typeof JNull = ''object''"
| "typeof (JBool b) = ''boolean''"
| "typeof (JNum t s) = ''number''"
| "typeof (JStr s) = ''string''"
| "typeof (JObj ps) = ''object''"

text \<open>The truth value of \<^verbatim>\<open>v\<close> in a condition (\<^verbatim>\<open>!v\<close> is its negation).\<close>

fun truthy :: "jsval \<Rightarrow> bool" where
  "truthy JUndefined = False"
| "truthy JNull = False"
| "truthy (JBool b) = b"
| "truthy (JNum t s) = t"
| "truthy (JStr s) = (s \<noteq> [])"
| "truthy (JObj ps) = True"

text \<open>\<^verbatim>\<open>v != undefined\<close>: loose inequality, false for \<^verbatim>\<open>undefined\<close> and \<^verbatim>\<open>null\<close> only.\<close>

fun looseNotUndefined :: "jsval \<Rightarrow> bool" where
  "looseNotUndefined JUndefined = False"
| "looseNotUndefined JNull = False"
| "looseNotUndefined v = True"

text \<open>\<^verbatim>\<open>String(v)\<close>.\<close>

fun String :: "jsval \<Rightarrow> string" where
  "String JUndefined = ''undefined''"
| "String JNull = ''null''"
| "String (JBool b) = (if b then ''true'' else ''false'')"
| "String (JNum t s) = s"
| "String (JStr s) = s"
| "String (JObj ps) = ''[object Object]''"

text \<open>
  \<^verbatim>\<open>o.k\<close> reads a property, \<^verbatim>\<open>undefined\<close> when the object has none of that name;
  \<^verbatim>\<open>o.k = v\<close> overwrites the property where it stands or appends it. The functions
  below reach both only after they have established that \<^verbatim>\<open>o\<close> is an object; on the
  other values the read is \<^verbatim>\<open>undefined\<close> and the write changes nothing.
\<close>

fun props :: "jsval \<Rightarrow> (string \<rightharpoonup> jsval)" where
  "props (JObj ps) = map_of ps"
| "props v = Map.empty"

definition getProp :: "jsval \<Rightarrow> string \<Rightarrow> jsval" where
  "getProp obj k = (case props obj k of None \<Rightarrow> JUndefined | Some v \<Rightarrow> v)"

fun setProp :: "jsval \<Rightarrow> string \<Rightarrow> jsval \<Rightarrow> jsval" where
  "setProp (JObj ps) k v = JObj (AList.update k v ps)"
| "setProp obj k v = obj"

text \<open>
  \<^verbatim>\<open>s.split(c)\<close> for a separator of one character: the pieces of \<^verbatim>\<open>s\<close> between
  the occurrences of \<^verbatim>\<open>c\<close>, never an empty array.
\<close>

fun split_str :: "char \<Rightarrow> string \<Rightarrow> string list" where
  "split_str c [] = [[]]"
| "split_str c (x # xs) =
     (if x = c then [] # split_str c xs
      else (case split_str c xs of [] \<Rightarrow> [[x]] | w # ws \<Rightarrow> (x # w) # ws))"

text \<open>\<^verbatim>\<open>arr[0]\<close> on an array of strings: \<^verbatim>\<open>undefined\<close> when the array is empty.\<close>

definition index0 :: "string list \<Rightarrow> jsval" where
  "index0 arr = (case arr of [] \<Rightarrow> JUndefined | w # ws \<Rightarrow> JStr w)"

section \<open>Errors and the two parameter checks\<close>

text \<open>
  Modelled from the spec: the errors are raised inside \<^verbatim>\<open>../errors\<close>, which is not among
  the sources. The spec has "two error kinds only", MissingParameterError and
  TypeMismatchError. The source hands the raising function the name of the parameter
  (and the expected type), and the spec speaks of the error "for \<^verbatim>\<open>hostName\<close>", so each
  error carries that name; the type mismatch carries the expected type as well.
\<close>

datatype error =
    MissingParameterError string
  | TypeMismatchError string string

fun errorParameter :: "error \<Rightarrow> string" where
  "errorParameter (MissingParameterError n) = n"
| "errorParameter (TypeMismatchError n t) = n"

text \<open>Two errors are of one kind when they differ in the parameter name at most.\<close>

fun sameKind :: "error \<Rightarrow> error \<Rightarrow> bool" where
  "sameKind (MissingParameterError n) (MissingParameterError m) = True"
| "sameKind (TypeMismatchError n t) (TypeMismatchError m u) = True"
| "sameKind e f = False"

text \<open>
  Modelled from the spec: \<^verbatim>\<open>throwTypeErrorIfParameterMissing\<close> is imported from
  \<^verbatim>\<open>../errors\<close>, which is not among the sources. The spec describes it as the primitive
  "fail if parameter missing", raising MissingParameterError when "a required value
  (parameter or required field) was null, undefined, or empty". Empty is the empty
  string: the spec has \<^verbatim>\<open>validate({})\<close> fail at \<^verbatim>\<open>hostName\<close>, so an object with no
  properties is not a missing parameter.
\<close>

definition isMissing :: "jsval \<Rightarrow> bool" where
  "isMissing v = (v = JUndefined \<or> v = JNull \<or> v = JStr [])"

definition throwTypeErrorIfParameterMissing :: "string \<Rightarrow> jsval \<Rightarrow> error + unit" where
  "throwTypeErrorIfParameterMissing parameterName parameterValue =
     (if isMissing parameterValue then Inl (MissingParameterError parameterName) else Inr ())"

text \<open>
  Modelled from the spec: \<^verbatim>\<open>throwTypeErrorIfParameterTypeMismatch\<close> is imported from
  \<^verbatim>\<open>../errors\<close> as well. The spec describes it as the primitive "fail if parameter
  type mismatch", raising TypeMismatchError when "a value expected to be an object-shaped
  record was not"; the source passes it the expected \<^verbatim>\<open>typeof\<close> name.
\<close>

definition throwTypeErrorIfParameterTypeMismatch ::
    "string \<Rightarrow> jsval \<Rightarrow> string \<Rightarrow> error + unit" where
  "throwTypeErrorIfParameterTypeMismatch parameterName parameterValue expectedType =
     (if typeof parameterValue \<noteq> expectedType
      then Inl (TypeMismatchError parameterName expectedType) else Inr ())"

section \<open>The connection-string tokenizer\<close>

text \<open>
  \<^verbatim>\<open>parseConnectionString\<close> is imported from \<^verbatim>\<open>../util/utils\<close>, which is not among the
  sources. \<^verbatim>\<open>create\<close> below takes the tokenizer as a parameter: a function from the
  raw string to a mapping of keys to string values, which is all the spec fixes
  (\<^verbatim>\<open>parse(raw: string) \<rightarrow> mapping<string,string>\<close>). Like any call it may throw
  instead of returning, and what it throws leaves \<^verbatim>\<open>create\<close> as it is.
\<close>

type_synonym tokenizer = "string \<Rightarrow> error + (string \<rightharpoonup> string)"

text \<open>\<^verbatim>\<open>parsedCS.Key\<close>: the string stored for the key, or \<^verbatim>\<open>undefined\<close>.\<close>

definition parsedField :: "(string \<rightharpoonup> string) \<Rightarrow> string \<Rightarrow> jsval" where
  "parsedField parsedCS k = (case parsedCS k of None \<Rightarrow> JUndefined | Some s \<Rightarrow> JStr s)"

text \<open>
  Modelled from the spec: one tokenizer for the format the spec gives, "semicolon-separated
  \<^verbatim>\<open>Key=Value\<close> pairs". A piece is cut at its first \<^verbatim>\<open>=\<close>; a piece without \<^verbatim>\<open>=\<close> is
  no pair and is dropped; of two pairs with one key the later one stands (the spec is
  silent on both). It returns a mapping for every string, as the signature in the spec has
  it.
\<close>

definition keyValue :: "string \<Rightarrow> (string \<times> string) list" where
  "keyValue part =
     (if CHR ''='' \<in> set part
      then [(takeWhile (\<lambda>c. c \<noteq> CHR ''='') part, drop 1 (dropWhile (\<lambda>c. c \<noteq> CHR ''='') part))]
      else [])"

definition keyValues :: "string \<Rightarrow> (string \<rightharpoonup> string)" where
  "keyValues connectionString =
     map_of (rev (concat (map keyValue (split_str CHR '';'' connectionString))))"

definition parseConnectionString :: tokenizer where
  "parseConnectionString connectionString = Inr (keyValues connectionString)"

section \<open>IotHubConnectionConfig\<close>

subsection \<open>create\<close>

text \<open>
  \<^verbatim>\<open>path\<close> is \<^verbatim>\<open>undefined\<close> when the caller leaves it out. \<^verbatim>\<open>parsedCS\<close> is an object and
  so truthy; \<^verbatim>\<open>parsedCS.HostName\<close> is truthy when the key is there with a string that is
  not empty, and only then is it split.
\<close>

definition create :: "tokenizer \<Rightarrow> jsval \<Rightarrow> jsval \<Rightarrow> error + jsval" where
  "create parse connectionString path =
     (case throwTypeErrorIfParameterMissing ''connectionString'' connectionString of
        Inl e \<Rightarrow> Inl e
      | Inr _ \<Rightarrow>
          let connectionString' = String connectionString in
          (case parse connectionString' of
             Inl e \<Rightarrow> Inl e
           | Inr parsedCS \<Rightarrow>
               let path' = (if \<not> truthy path then JStr ''messages/events'' else path)
               in Inr (JObj
                    [(''connectionString'', JStr connectionString'),
                     (''hostName'', parsedField parsedCS ''HostName''),
                     (''host'',
                        (case parsedCS ''HostName'' of
                           None \<Rightarrow> JStr ''''
                         | Some hostName \<Rightarrow>
                             if hostName \<noteq> [] then index0 (split_str CHR ''.'' hostName)
                             else JStr '''')),
                     (''entityPath'', path'),
                     (''sharedAccessKeyName'', parsedField parsedCS ''SharedAccessKeyName''),
                     (''sharedAccessKey'', parsedField parsedCS ''SharedAccessKey''),
                     (''deviceId'', parsedField parsedCS ''DeviceId'')])))"

subsection \<open>validate\<close>

text \<open>
  \<^verbatim>\<open>validate\<close> writes into the object it is given, and the caller holds that object
  whether \<^verbatim>\<open>validate\<close> returns or throws. The model returns the outcome together
  with the object as the call leaves it.
\<close>

definition validate :: "jsval \<Rightarrow> (error + unit) \<times> jsval" where
  "validate config =
     (case throwTypeErrorIfParameterMissing ''config'' config of
        Inl e \<Rightarrow> (Inl e, config)
      | Inr _ \<Rightarrow>
     (case throwTypeErrorIfParameterTypeMismatch ''config'' config ''object'' of
        Inl e \<Rightarrow> (Inl e, config)
      | Inr _ \<Rightarrow>
     (case throwTypeErrorIfParameterMissing ''hostName'' (getProp config ''hostName'') of
        Inl e \<Rightarrow> (Inl e, config)
      | Inr _ \<Rightarrow>
          let config1 = setProp config ''hostName'' (JStr (String (getProp config ''hostName'')))
          in
     (case throwTypeErrorIfParameterMissing ''entityPath'' (getProp config1 ''entityPath'') of
        Inl e \<Rightarrow> (Inl e, config1)
      | Inr _ \<Rightarrow>
          let config2 =
                setProp config1 ''entityPath'' (JStr (String (getProp config1 ''entityPath'')))
          in
     (case throwTypeErrorIfParameterMissing ''sharedAccessKeyName''
             (getProp config2 ''sharedAccessKeyName'') of
        Inl e \<Rightarrow> (Inl e, config2)
      | Inr _ \<Rightarrow>
          let config3 =
                setProp config2 ''sharedAccessKeyName''
                  (JStr (String (getProp config2 ''sharedAccessKeyName'')))
          in
     (case throwTypeErrorIfParameterMissing ''sharedAccessKey''
             (getProp config3 ''sharedAccessKey'') of
        Inl e \<Rightarrow> (Inl e, config3)
      | Inr _ \<Rightarrow>
          let config4 =
                setProp config3 ''sharedAccessKey''
                  (JStr (String (getProp config3 ''sharedAccessKey'')))
          in
          if looseNotUndefined (getProp config4 ''deviceId'')
          then (Inr (), setProp config4 ''deviceId'' (JStr (String (getProp config4 ''deviceId''))))
          else (Inr (), config4)))))))"

text \<open>The fields \<^verbatim>\<open>validate\<close> requires, in the order of its checks (lines 83 to 93).\<close>

definition requiredFields :: "string list" where
  "requiredFields = [''hostName'', ''entityPath'', ''sharedAccessKeyName'', ''sharedAccessKey'']"

subsection \<open>convertToEventHubConnectionConfig\<close>

text \<open>
  \<^verbatim>\<open>EventHubConnectionConfig.createFromConnectionConfig\<close> is imported from the package
  index and is not among the sources; it is a parameter here: a function from the record
  built at lines 109 to 116 to the related descriptor, which may throw. The result is
  paired with the descriptor as the call leaves it, as for \<^verbatim>\<open>validate\<close>.
\<close>

definition convertToEventHubConnectionConfig ::
    "(jsval \<Rightarrow> error + jsval) \<Rightarrow> jsval \<Rightarrow> (error + jsval) \<times> jsval" where
  "convertToEventHubConnectionConfig createFromConnectionConfig iotHubConfig =
     (case throwTypeErrorIfParameterMissing ''iotHubConfig'' iotHubConfig of
        Inl e \<Rightarrow> (Inl e, iotHubConfig)
      | Inr _ \<Rightarrow>
     (case throwTypeErrorIfParameterTypeMismatch ''iotHubConfig'' iotHubConfig ''object'' of
        Inl e \<Rightarrow> (Inl e, iotHubConfig)
      | Inr _ \<Rightarrow>
     (case validate iotHubConfig of
        (Inl e, iotHubConfig') \<Rightarrow> (Inl e, iotHubConfig')
      | (Inr _, iotHubConfig') \<Rightarrow>
          (createFromConnectionConfig (JObj
             [(''sharedAccessKey'', getProp iotHubConfig' ''sharedAccessKey''),
              (''sharedAccessKeyName'', getProp iotHubConfig' ''sharedAccessKeyName''),
              (''entityPath'', getProp iotHubConfig' ''entityPath''),
              (''host'', getProp iotHubConfig' ''hostName''),
              (''endpoint'', JStr (''sb://'' @ String (getProp iotHubConfig' ''hostName'') @ ''/'')),
              (''connectionString'', getProp iotHubConfig' ''connectionString'')]),
           iotHubConfig'))))"

section \<open>Basic facts\<close>

lemma throwMissing_case [simp]:
  "(case throwTypeErrorIfParameterMissing n v of Inl e \<Rightarrow> f e | Inr u \<Rightarrow> g u) =
     (if isMissing v then f (MissingParameterError n) else g ())"
  by (simp add: throwTypeErrorIfParameterMissing_def)

lemma throwMismatch_case [simp]:
  "(case throwTypeErrorIfParameterTypeMismatch n v t of Inl e \<Rightarrow> f e | Inr u \<Rightarrow> g u) =
     (if typeof v \<noteq> t then f (TypeMismatchError n t) else g ())"
  by (simp add: throwTypeErrorIfParameterTypeMismatch_def)

lemma JObj_not_missing [simp]: "\<not> isMissing (JObj ps)"
  by (simp add: isMissing_def)

lemma getProp_update [simp]:
  "getProp (JObj (AList.update k v ps)) k' = (if k' = k then v else getProp (JObj ps) k')"
  by (simp add: getProp_def update_conv')

lemma props_update [simp]:
  "props (JObj (AList.update k v ps)) = (props (JObj ps))(k \<mapsto> v)"
  by (simp add: update_conv')

lemma getProp_JStr_props: "getProp c k = JStr s \<Longrightarrow> props c k = Some (JStr s)"
  by (simp add: getProp_def split: option.splits)

text \<open>Writing the string a property already holds leaves the object as it is.\<close>

lemma update_same_obj:
  "getProp (JObj ps) k = JStr s \<Longrightarrow> AList.update k (JStr s) ps = ps"
  using getProp_JStr_props [of "JObj ps" k s] by (simp add: update_triv)

lemma split_str_first: "\<exists>ws. split_str c s = takeWhile (\<lambda>x. x \<noteq> c) s # ws"
  by (induction s) (auto split: list.splits)

lemma index0_split_str [simp]:
  "index0 (split_str c s) = JStr (takeWhile (\<lambda>x. x \<noteq> c) s)"
  using split_str_first [of c s] by (auto simp: index0_def)

lemma split_str_no_sep: "c \<notin> set s \<Longrightarrow> split_str c s = [s]"
  by (induction s) auto

lemma split_str_append: "c \<notin> set a \<Longrightarrow> split_str c (a @ c # b) = a # split_str c b"
  by (induction a) auto

section \<open>What validate does, case by case\<close>

text \<open>
  On anything but an object \<^verbatim>\<open>validate\<close> throws at one of its first two checks and
  writes nothing.
\<close>

lemma validate_nonobj:
  "\<forall>ps. config \<noteq> JObj ps \<Longrightarrow>
   validate config =
     (Inl (if isMissing config then MissingParameterError ''config''
           else TypeMismatchError ''config'' ''object''), config)"
  by (cases config) (simp_all add: validate_def isMissing_def)

text \<open>
  On an object the four checks read the fields as the caller passed them, since each
  write goes to a field that was checked before; the object at the exit of each branch
  carries the writes made so far.
\<close>

lemma validate_obj:
  "validate (JObj ps) =
    (let c = JObj ps;
         ps1 = AList.update ''hostName'' (JStr (String (getProp c ''hostName''))) ps;
         ps2 = AList.update ''entityPath'' (JStr (String (getProp c ''entityPath''))) ps1;
         ps3 = AList.update ''sharedAccessKeyName''
                 (JStr (String (getProp c ''sharedAccessKeyName''))) ps2;
         ps4 = AList.update ''sharedAccessKey'' (JStr (String (getProp c ''sharedAccessKey''))) ps3;
         ps5 = AList.update ''deviceId'' (JStr (String (getProp c ''deviceId''))) ps4
     in if isMissing (getProp c ''hostName'')
          then (Inl (MissingParameterError ''hostName''), c)
        else if isMissing (getProp c ''entityPath'')
          then (Inl (MissingParameterError ''entityPath''), JObj ps1)
        else if isMissing (getProp c ''sharedAccessKeyName'')
          then (Inl (MissingParameterError ''sharedAccessKeyName''), JObj ps2)
        else if isMissing (getProp c ''sharedAccessKey'')
          then (Inl (MissingParameterError ''sharedAccessKey''), JObj ps3)
        else if looseNotUndefined (getProp c ''deviceId'')
          then (Inr (), JObj ps5)
        else (Inr (), JObj ps4))"
  by (simp add: validate_def Let_def)

lemma validate_Inr_obj:
  assumes "fst (validate config) = Inr u"
  shows "\<exists>ps. config = JObj ps"
proof (rule ccontr)
  assume "\<not> (\<exists>ps. config = JObj ps)"
  then have "fst (validate config) =
      Inl (if isMissing config then MissingParameterError ''config''
           else TypeMismatchError ''config'' ''object'')"
    by (simp add: validate_nonobj)
  with assms show False by simp
qed

section \<open>validate: the order of the checks\<close>




section \<open>validate: coercion in place\<close>



section \<open>validate: a second call changes nothing\<close>

text \<open>
  Claim C8. On a descriptor that is valid and coerced already (the four required fields
  are strings that are not empty, and \<^verbatim>\<open>deviceId\<close> is absent or a string), \<^verbatim>\<open>validate\<close>
  raises no error and returns the object as it was; so does a second call.
\<close>

theorem validate_idempotent:
  assumes req: "\<forall>f \<in> set requiredFields. \<exists>s. s \<noteq> [] \<and> getProp config f = JStr s"
    and dev: "getProp config ''deviceId'' = JUndefined \<or> getProp config ''deviceId'' = JNull
              \<or> (\<exists>s. getProp config ''deviceId'' = JStr s)"
  shows "validate config = (Inr (), config) \<and> validate (snd (validate config)) = (Inr (), config)"
proof -
  from req have "getProp config ''hostName'' \<noteq> JUndefined"
    by (auto simp: requiredFields_def)
  then obtain ps where c: "config = JObj ps"
    by (cases config) (simp_all add: getProp_def)
  from req obtain h where h: "h \<noteq> []" "getProp (JObj ps) ''hostName'' = JStr h"
    unfolding c by (auto simp: requiredFields_def)
  from req obtain p where p: "p \<noteq> []" "getProp (JObj ps) ''entityPath'' = JStr p"
    unfolding c by (auto simp: requiredFields_def)
  from req obtain n where n: "n \<noteq> []" "getProp (JObj ps) ''sharedAccessKeyName'' = JStr n"
    unfolding c by (auto simp: requiredFields_def)
  from req obtain a where a: "a \<noteq> []" "getProp (JObj ps) ''sharedAccessKey'' = JStr a"
    unfolding c by (auto simp: requiredFields_def)
  have u: "AList.update ''hostName'' (JStr h) ps = ps"
    "AList.update ''entityPath'' (JStr p) ps = ps"
    "AList.update ''sharedAccessKeyName'' (JStr n) ps = ps"
    "AList.update ''sharedAccessKey'' (JStr a) ps = ps"
    using h p n a by (simp_all add: update_same_obj)
  have d: "looseNotUndefined (getProp (JObj ps) ''deviceId'') \<Longrightarrow>
      AList.update ''deviceId'' (JStr (String (getProp (JObj ps) ''deviceId''))) ps = ps"
    using dev unfolding c by (auto simp: update_same_obj)
  have "validate (JObj ps) = (Inr (), JObj ps)"
    using h p n a u d by (simp add: validate_obj Let_def isMissing_def)
  then show ?thesis unfolding c by simp
qed

theorem validate_idempotent_witness:
  "getProp (JObj [(''hostName'', JStr ''h.net''), (''entityPath'', JStr ''p''),
        (''sharedAccessKeyName'', JStr ''n''), (''sharedAccessKey'', JStr ''k'')]) ''hostName''
     = JStr ''h.net'' \<and>
   getProp (JObj [(''hostName'', JStr ''h.net''), (''entityPath'', JStr ''p''),
        (''sharedAccessKeyName'', JStr ''n''), (''sharedAccessKey'', JStr ''k'')]) ''entityPath''
     = JStr ''p'' \<and>
   getProp (JObj [(''hostName'', JStr ''h.net''), (''entityPath'', JStr ''p''),
        (''sharedAccessKeyName'', JStr ''n''), (''sharedAccessKey'', JStr ''k'')])
       ''sharedAccessKeyName'' = JStr ''n'' \<and>
   getProp (JObj [(''hostName'', JStr ''h.net''), (''entityPath'', JStr ''p''),
        (''sharedAccessKeyName'', JStr ''n''), (''sharedAccessKey'', JStr ''k'')])
       ''sharedAccessKey'' = JStr ''k'' \<and>
   getProp (JObj [(''hostName'', JStr ''h.net''), (''entityPath'', JStr ''p''),
        (''sharedAccessKeyName'', JStr ''n''), (''sharedAccessKey'', JStr ''k'')]) ''deviceId''
     = JUndefined \<and>
   validate (JObj [(''hostName'', JStr ''h.net''), (''entityPath'', JStr ''p''),
        (''sharedAccessKeyName'', JStr ''n''), (''sharedAccessKey'', JStr ''k'')]) =
     (Inr (), JObj [(''hostName'', JStr ''h.net''), (''entityPath'', JStr ''p''),
        (''sharedAccessKeyName'', JStr ''n''), (''sharedAccessKey'', JStr ''k'')]) \<and>
   validate (snd (validate (JObj [(''hostName'', JStr ''h.net''), (''entityPath'', JStr ''p''),
        (''sharedAccessKeyName'', JStr ''n''), (''sharedAccessKey'', JStr ''k'')]))) =
     (Inr (), JObj [(''hostName'', JStr ''h.net''), (''entityPath'', JStr ''p''),
        (''sharedAccessKeyName'', JStr ''n''), (''sharedAccessKey'', JStr ''k'')])"
proof -
  have g: "getProp (JObj [(''hostName'', JStr ''h.net''), (''entityPath'', JStr ''p''),
        (''sharedAccessKeyName'', JStr ''n''), (''sharedAccessKey'', JStr ''k'')]) ''hostName''
     = JStr ''h.net''"
    "getProp (JObj [(''hostName'', JStr ''h.net''), (''entityPath'', JStr ''p''),
        (''sharedAccessKeyName'', JStr ''n''), (''sharedAccessKey'', JStr ''k'')]) ''entityPath''
     = JStr ''p''"
    "getProp (JObj [(''hostName'', JStr ''h.net''), (''entityPath'', JStr ''p''),
        (''sharedAccessKeyName'', JStr ''n''), (''sharedAccessKey'', JStr ''k'')])
       ''sharedAccessKeyName'' = JStr ''n''"
    "getProp (JObj [(''hostName'', JStr ''h.net''), (''entityPath'', JStr ''p''),
        (''sharedAccessKeyName'', JStr ''n''), (''sharedAccessKey'', JStr ''k'')])
       ''sharedAccessKey'' = JStr ''k''"
    by (simp_all add: getProp_def)
  have r: "\<forall>f \<in> set requiredFields. \<exists>s. s \<noteq> [] \<and>
      getProp (JObj [(''hostName'', JStr ''h.net''), (''entityPath'', JStr ''p''),
        (''sharedAccessKeyName'', JStr ''n''), (''sharedAccessKey'', JStr ''k'')]) f = JStr s"
    by (simp add: requiredFields_def getProp_def)
  have d: "getProp (JObj [(''hostName'', JStr ''h.net''), (''entityPath'', JStr ''p''),
        (''sharedAccessKeyName'', JStr ''n''), (''sharedAccessKey'', JStr ''k'')]) ''deviceId''
      = JUndefined"
    by (simp add: getProp_def)
  from validate_idempotent [OF r disjI1, OF d] g d show ?thesis by blast
qed

section \<open>validate: what a call may write\<close>

text \<open>
  Claim C10. Whether it returns or throws, \<^verbatim>\<open>validate\<close> leaves every property other than
  \<^verbatim>\<open>hostName\<close>, \<^verbatim>\<open>entityPath\<close>, \<^verbatim>\<open>sharedAccessKeyName\<close>, \<^verbatim>\<open>sharedAccessKey\<close> and
  \<^verbatim>\<open>deviceId\<close> as it was, present or absent, \<^verbatim>\<open>host\<close> and \<^verbatim>\<open>connectionString\<close> among
  them; it leaves \<^verbatim>\<open>deviceId\<close> as it was when \<^verbatim>\<open>deviceId\<close> is not present; and an
  argument that is not an object is not changed at all.
\<close>

theorem validate_frame:
  "(k \<notin> {''hostName'', ''entityPath'', ''sharedAccessKeyName'', ''sharedAccessKey'', ''deviceId''}
      \<longrightarrow> props (snd (validate config)) k = props config k) \<and>
   props (snd (validate config)) ''host'' = props config ''host'' \<and>
   props (snd (validate config)) ''connectionString'' = props config ''connectionString'' \<and>
   (\<not> looseNotUndefined (getProp config ''deviceId'')
      \<longrightarrow> props (snd (validate config)) ''deviceId'' = props config ''deviceId'') \<and>
   ((\<forall>ps. config \<noteq> JObj ps) \<longrightarrow> snd (validate config) = config)"
proof (cases "\<exists>ps. config = JObj ps")
  case True
  then obtain ps where c: "config = JObj ps" by blast
  show ?thesis
    unfolding c by (simp add: validate_obj Let_def del: props.simps)
next
  case False
  then show ?thesis by (simp add: validate_nonobj)
qed

theorem validate_frame_witness:
  "''host'' \<notin> {''hostName'', ''entityPath'', ''sharedAccessKeyName'', ''sharedAccessKey'', ''deviceId''} \<and>
   props (snd (validate (JObj [(''hostName'', JNum True ''1''), (''host'', JStr ''x'')]))) ''host''
     = Some (JStr ''x'') \<and>
   \<not> looseNotUndefined (getProp (JObj [(''hostName'', JNum True ''1''), (''host'', JStr ''x'')]) ''deviceId'') \<and>
   props (snd (validate (JObj [(''hostName'', JNum True ''1''), (''host'', JStr ''x'')]))) ''deviceId'' = None"
proof -
  have k: "''host'' \<notin> {''hostName'', ''entityPath'', ''sharedAccessKeyName'', ''sharedAccessKey'', ''deviceId''}"
    by simp
  have "props (snd (validate (JObj [(''hostName'', JNum True ''1''), (''host'', JStr ''x'')]))) ''host''
     = props (JObj [(''hostName'', JNum True ''1''), (''host'', JStr ''x'')]) ''host''"
    using validate_frame [of "''host''" "JObj [(''hostName'', JNum True ''1''), (''host'', JStr ''x'')]",
        THEN conjunct1] k by blast
  then have a: "props (snd (validate (JObj [(''hostName'', JNum True ''1''), (''host'', JStr ''x'')]))) ''host''
     = Some (JStr ''x'')"
    by simp
  have d: "\<not> looseNotUndefined (getProp (JObj [(''hostName'', JNum True ''1''), (''host'', JStr ''x'')]) ''deviceId'')"
    by (simp add: getProp_def)
  have "props (snd (validate (JObj [(''hostName'', JNum True ''1''), (''host'', JStr ''x'')]))) ''deviceId''
     = props (JObj [(''hostName'', JNum True ''1''), (''host'', JStr ''x'')]) ''deviceId''"
    using validate_frame [of "''host''" "JObj [(''hostName'', JNum True ''1''), (''host'', JStr ''x'')]"] d
    by blast
  then have b: "props (snd (validate (JObj [(''hostName'', JNum True ''1''), (''host'', JStr ''x'')]))) ''deviceId''
     = None"
    by simp
  from k a d b show ?thesis by blast
qed

section \<open>validate: what a failed call leaves behind\<close>

text \<open>
  Claim C2, as the code has it. The first failure ends the call, and nothing is undone:
  each required field checked before the failing one has been overwritten with the string
  of its old value, while the failing field, the fields after it and every other property
  are as they were. So the descriptor is unchanged when the call fails at the descriptor
  itself or at \<^verbatim>\<open>hostName\<close>, and whenever the required fields that are present were
  strings already.
\<close>

theorem validate_failure_partial:
  assumes "validate config = (Inl e, config')"
  shows "(errorParameter e = ''config'' \<or> errorParameter e = ''hostName'' \<longrightarrow> config' = config) \<and>
    (errorParameter e \<noteq> ''config'' \<longrightarrow>
       errorParameter e \<in> set requiredFields \<and>
       (\<forall>k. props config' k =
          (if k \<in> set (takeWhile (\<lambda>f. f \<noteq> errorParameter e) requiredFields)
           then Some (JStr (String (getProp config k))) else props config k))) \<and>
    ((\<forall>f \<in> set requiredFields. isMissing (getProp config f) \<or> (\<exists>s. getProp config f = JStr s))
       \<longrightarrow> config' = config)"
proof (cases "\<exists>ps. config = JObj ps")
  case False
  with assms show ?thesis
    by (auto simp: validate_nonobj split: if_splits)
next
  case True
  then obtain ps where c: "config = JObj ps" by blast
  have a: "errorParameter e = ''config'' \<or> errorParameter e = ''hostName'' \<longrightarrow> config' = config"
    using assms unfolding c
    by (auto simp: validate_obj Let_def split: if_splits)
  have b: "errorParameter e \<noteq> ''config'' \<longrightarrow>
       errorParameter e \<in> set requiredFields \<and>
       (\<forall>k. props config' k =
          (if k \<in> set (takeWhile (\<lambda>f. f \<noteq> errorParameter e) requiredFields)
           then Some (JStr (String (getProp config k))) else props config k))"
    using assms unfolding c
    by (auto simp: validate_obj Let_def requiredFields_def getProp_def
          simp del: props.simps split: if_splits)
  have d: "(\<forall>f \<in> set requiredFields. isMissing (getProp config f) \<or> (\<exists>s. getProp config f = JStr s))
       \<longrightarrow> config' = config"
  proof
    assume r: "\<forall>f \<in> set requiredFields.
        isMissing (getProp config f) \<or> (\<exists>s. getProp config f = JStr s)"
    have u: "\<And>k. k \<in> set requiredFields \<Longrightarrow> \<not> isMissing (getProp (JObj ps) k) \<Longrightarrow>
         AList.update k (JStr (String (getProp (JObj ps) k))) ps = ps"
      using r unfolding c by (auto simp: update_same_obj)
    have u1: "\<not> isMissing (getProp (JObj ps) ''hostName'') \<Longrightarrow>
         AList.update ''hostName'' (JStr (String (getProp (JObj ps) ''hostName''))) ps = ps"
      by (rule u) (simp_all add: requiredFields_def)
    have u2: "\<not> isMissing (getProp (JObj ps) ''entityPath'') \<Longrightarrow>
         AList.update ''entityPath'' (JStr (String (getProp (JObj ps) ''entityPath''))) ps = ps"
      by (rule u) (simp_all add: requiredFields_def)
    have u3: "\<not> isMissing (getProp (JObj ps) ''sharedAccessKeyName'') \<Longrightarrow>
         AList.update ''sharedAccessKeyName''
           (JStr (String (getProp (JObj ps) ''sharedAccessKeyName''))) ps = ps"
      by (rule u) (simp_all add: requiredFields_def)
    show "config' = config"
      using assms u1 u2 u3 unfolding c
      by (auto simp: validate_obj Let_def split: if_splits)
  qed
  from a b d show ?thesis by blast
qed

theorem validate_failure_partial_witness:
  "validate (JObj [(''hostName'', JNum True ''1'')]) =
     (Inl (MissingParameterError ''entityPath''), JObj [(''hostName'', JStr ''1'')]) \<and>
   errorParameter (MissingParameterError ''entityPath'') \<in> set requiredFields \<and>
   props (JObj [(''hostName'', JStr ''1'')]) ''hostName'' =
     Some (JStr (String (getProp (JObj [(''hostName'', JNum True ''1'')]) ''hostName''))) \<and>
   props (JObj [(''hostName'', JStr ''1'')]) ''entityPath'' =
     props (JObj [(''hostName'', JNum True ''1'')]) ''entityPath''"
proof -
  have v: "validate (JObj [(''hostName'', JNum True ''1'')]) =
     (Inl (MissingParameterError ''entityPath''), JObj [(''hostName'', JStr ''1'')])"
    by code_simp
  have n: "errorParameter (MissingParameterError ''entityPath'') \<noteq> ''config''"
    by simp
  note t = validate_failure_partial [OF v, THEN conjunct2, THEN conjunct1, rule_format, OF n]
  have a: "errorParameter (MissingParameterError ''entityPath'') \<in> set requiredFields"
    using t by blast
  have b: "props (JObj [(''hostName'', JStr ''1'')]) ''hostName'' =
     Some (JStr (String (getProp (JObj [(''hostName'', JNum True ''1'')]) ''hostName'')))"
    using t [THEN conjunct2, rule_format, of "''hostName''"]
    by (simp add: requiredFields_def)
  have c: "props (JObj [(''hostName'', JStr ''1'')]) ''entityPath'' =
     props (JObj [(''hostName'', JNum True ''1'')]) ''entityPath''"
    using t [THEN conjunct2, rule_format, of "''entityPath''"]
    by (simp add: requiredFields_def)
  from v a b c show ?thesis by blast
qed

text \<open>
  The claim as the spec words it, that a failed call leaves the descriptor unchanged, does
  not hold of \<^verbatim>\<open>{hostName: 1}\<close>: the call fails at \<^verbatim>\<open>entityPath\<close>, and \<^verbatim>\<open>hostName\<close> is
  the string \<^verbatim>\<open>"1"\<close> by then.
\<close>

theorem validate_all_or_nothing_counterexample:
  "validate (JObj [(''hostName'', JNum True ''1'')]) =
     (Inl (MissingParameterError ''entityPath''), JObj [(''hostName'', JStr ''1'')]) \<and>
   JObj [(''hostName'', JStr ''1'')] \<noteq> JObj [(''hostName'', JNum True ''1'')]"
  by (simp add: validate_obj Let_def getProp_def isMissing_def)

section \<open>convertToEventHubConnectionConfig\<close>

lemma convert_nonobj:
  "\<forall>ps. config \<noteq> JObj ps \<Longrightarrow>
   convertToEventHubConnectionConfig factory config =
     (Inl (if isMissing config then MissingParameterError ''iotHubConfig''
           else TypeMismatchError ''iotHubConfig'' ''object''), config)"
  by (cases config) (simp_all add: convertToEventHubConnectionConfig_def isMissing_def)

lemma convert_obj:
  "convertToEventHubConnectionConfig factory (JObj ps) =
     (case validate (JObj ps) of
        (Inl e, c) \<Rightarrow> (Inl e, c)
      | (Inr u, c) \<Rightarrow>
          (factory (JObj
             [(''sharedAccessKey'', getProp c ''sharedAccessKey''),
              (''sharedAccessKeyName'', getProp c ''sharedAccessKeyName''),
              (''entityPath'', getProp c ''entityPath''),
              (''host'', getProp c ''hostName''),
              (''endpoint'', JStr (''sb://'' @ String (getProp c ''hostName'') @ ''/'')),
              (''connectionString'', getProp c ''connectionString'')]),
           c))"
  by (simp add: convertToEventHubConnectionConfig_def)

text \<open>
  Claim C9, as the code has it. Whenever \<^verbatim>\<open>validate\<close> throws on an input,
  \<^verbatim>\<open>convertToEventHubConnectionConfig\<close> throws an error of the same kind on it, whatever
  the factory. On an object it is the very error of \<^verbatim>\<open>validate\<close>, raised by the call of
  line 108, and the descriptor is left as \<^verbatim>\<open>validate\<close> leaves it. On an argument that is
  not an object the guards of lines 105 and 106 throw before \<^verbatim>\<open>validate\<close> is reached, and
  the error names the parameter \<^verbatim>\<open>iotHubConfig\<close> where that of \<^verbatim>\<open>validate\<close> names
  \<^verbatim>\<open>config\<close>; for a missing argument it is MissingParameterError.
\<close>

theorem convert_propagates:
  assumes "fst (validate config) = Inl e"
  shows "\<exists>e'. fst (convertToEventHubConnectionConfig factory config) = Inl e' \<and>
      sameKind e' e \<and>
      ((\<exists>ps. config = JObj ps) \<longrightarrow>
         e' = e \<and> snd (convertToEventHubConnectionConfig factory config) = snd (validate config)) \<and>
      ((\<forall>ps. config \<noteq> JObj ps) \<longrightarrow>
         errorParameter e = ''config'' \<and> errorParameter e' = ''iotHubConfig'') \<and>
      (isMissing config \<longrightarrow> e' = MissingParameterError ''iotHubConfig'')"
proof (cases "\<exists>ps. config = JObj ps")
  case False
  with assms show ?thesis
    by (auto simp: validate_nonobj convert_nonobj split: if_splits)
next
  case True
  then obtain ps where c: "config = JObj ps" by blast
  obtain c' where v: "validate (JObj ps) = (Inl e, c')"
    using assms unfolding c by (cases "validate (JObj ps)") simp
  have "convertToEventHubConnectionConfig factory (JObj ps) = (Inl e, c')"
    by (simp add: convert_obj v)
  then show ?thesis
    unfolding c using v by (cases e) simp_all
qed

theorem convert_propagates_witness:
  "fst (validate (JObj [])) = Inl (MissingParameterError ''hostName'') \<and>
   fst (convertToEventHubConnectionConfig Inr (JObj [])) = Inl (MissingParameterError ''hostName'')"
proof -
  have v: "fst (validate (JObj [])) = Inl (MissingParameterError ''hostName'')"
    by code_simp
  from convert_propagates [OF v, of Inr] have
    "fst (convertToEventHubConnectionConfig Inr (JObj [])) = Inl (MissingParameterError ''hostName'')"
    by auto
  with v show ?thesis by blast
qed

text \<open>
  The claim as the spec words it, that the error is the same one, does not hold of
  \<^verbatim>\<open>null\<close>: \<^verbatim>\<open>validate\<close> reports \<^verbatim>\<open>config\<close> missing, the conversion reports
  \<^verbatim>\<open>iotHubConfig\<close> missing.
\<close>

theorem convert_null_counterexample:
  "fst (validate JNull) = Inl (MissingParameterError ''config'') \<and>
   fst (convertToEventHubConnectionConfig Inr JNull) = Inl (MissingParameterError ''iotHubConfig'') \<and>
   MissingParameterError ''iotHubConfig'' \<noteq> MissingParameterError ''config''"
  by (simp add: validate_def convertToEventHubConnectionConfig_def isMissing_def)

text \<open>
  Claim C3. For a descriptor that passes \<^verbatim>\<open>validate\<close>, the record handed to the factory
  has \<^verbatim>\<open>endpoint\<close> equal to \<^verbatim>\<open>"sb://"\<close>, the host name and \<^verbatim>\<open>"/"\<close>, has \<^verbatim>\<open>host\<close> equal
  to the whole host name, not cut at a dot, and has \<^verbatim>\<open>sharedAccessKey\<close>,
  \<^verbatim>\<open>sharedAccessKeyName\<close>, \<^verbatim>\<open>entityPath\<close> and \<^verbatim>\<open>connectionString\<close> as the validated
  descriptor holds them; the result is what the factory makes of that record. The fields
  are read after the validation, so the first five are the strings of the caller's values
  (the caller's values themselves when these are strings).
\<close>

theorem convert_fields:
  assumes "fst (validate config) = Inr ()"
  shows "convertToEventHubConnectionConfig factory config =
     (factory (JObj
        [(''sharedAccessKey'', JStr (String (getProp config ''sharedAccessKey''))),
         (''sharedAccessKeyName'', JStr (String (getProp config ''sharedAccessKeyName''))),
         (''entityPath'', JStr (String (getProp config ''entityPath''))),
         (''host'', JStr (String (getProp config ''hostName''))),
         (''endpoint'', JStr (''sb://'' @ String (getProp config ''hostName'') @ ''/'')),
         (''connectionString'', getProp config ''connectionString'')]),
      snd (validate config)) \<and>
    getProp (snd (validate config)) ''hostName'' = JStr (String (getProp config ''hostName'')) \<and>
    getProp (snd (validate config)) ''sharedAccessKey'' =
      JStr (String (getProp config ''sharedAccessKey'')) \<and>
    getProp (snd (validate config)) ''sharedAccessKeyName'' =
      JStr (String (getProp config ''sharedAccessKeyName'')) \<and>
    getProp (snd (validate config)) ''entityPath'' = JStr (String (getProp config ''entityPath'')) \<and>
    getProp (snd (validate config)) ''connectionString'' = getProp config ''connectionString''"
proof -
  from assms obtain ps where c: "config = JObj ps"
    using validate_Inr_obj by blast
  show ?thesis
    using assms unfolding c
    by (simp add: convert_obj validate_obj Let_def split: if_splits)
qed

theorem convert_fields_witness:
  "fst (validate (JObj [(''hostName'', JStr ''foo.bar''), (''entityPath'', JStr ''p''),
        (''sharedAccessKeyName'', JStr ''n''), (''sharedAccessKey'', JStr ''k''),
        (''connectionString'', JStr ''cs'')])) = Inr () \<and>
   fst (convertToEventHubConnectionConfig Inr
      (JObj [(''hostName'', JStr ''foo.bar''), (''entityPath'', JStr ''p''),
        (''sharedAccessKeyName'', JStr ''n''), (''sharedAccessKey'', JStr ''k''),
        (''connectionString'', JStr ''cs'')])) =
     Inr (JObj
        [(''sharedAccessKey'', JStr ''k''),
         (''sharedAccessKeyName'', JStr ''n''),
         (''entityPath'', JStr ''p''),
         (''host'', JStr ''foo.bar''),
         (''endpoint'', JStr ''sb://foo.bar/''),
         (''connectionString'', JStr ''cs'')])"
proof -
  have v: "fst (validate (JObj [(''hostName'', JStr ''foo.bar''), (''entityPath'', JStr ''p''),
        (''sharedAccessKeyName'', JStr ''n''), (''sharedAccessKey'', JStr ''k''),
        (''connectionString'', JStr ''cs'')])) = Inr ()"
    by code_simp
  show ?thesis
    using convert_fields [OF v, of Inr, THEN conjunct1] v
    by (simp add: getProp_def)
qed

section \<open>create\<close>

lemma create_missing:
  "isMissing connectionString \<Longrightarrow>
   create parse connectionString path = Inl (MissingParameterError ''connectionString'')"
  by (simp add: create_def)

text \<open>
  Once the connection string is present, \<^verbatim>\<open>create\<close> throws what the tokenizer throws and
  nothing else; when the tokenizer returns, the descriptor is the record of lines 62 to 70.
\<close>

lemma create_present:
  "\<not> isMissing connectionString \<Longrightarrow>
   create parse connectionString path =
     (case parse (String connectionString) of
        Inl e \<Rightarrow> Inl e
      | Inr parsedCS \<Rightarrow>
          Inr (JObj
            [(''connectionString'', JStr (String connectionString)),
             (''hostName'', parsedField parsedCS ''HostName''),
             (''host'',
                (case parsedCS ''HostName'' of
                   None \<Rightarrow> JStr []
                 | Some hostName \<Rightarrow> JStr (takeWhile (\<lambda>x. x \<noteq> CHR ''.'') hostName))),
             (''entityPath'', (if \<not> truthy path then JStr ''messages/events'' else path)),
             (''sharedAccessKeyName'', parsedField parsedCS ''SharedAccessKeyName''),
             (''sharedAccessKey'', parsedField parsedCS ''SharedAccessKey''),
             (''deviceId'', parsedField parsedCS ''DeviceId'')]))"
  by (simp add: create_def Let_def split: option.splits sum.splits)

lemma create_Inr_present:
  assumes "create parse connectionString path = Inr d"
  shows "\<not> isMissing connectionString \<and> (\<exists>parsedCS. parse (String connectionString) = Inr parsedCS)"
proof -
  have m: "\<not> isMissing connectionString"
    using assms create_missing [of connectionString parse path] by auto
  from assms show ?thesis
    unfolding create_present [OF m] using m
    by (cases "parse (String connectionString)") auto
qed

text \<open>
  The tokenizer modelled from the spec reads a connection string of the standard form as
  its three pairs, when no value holds a semicolon.
\<close>

lemma keyValues_standard:
  assumes "CHR '';'' \<notin> set h" "CHR '';'' \<notin> set k" "CHR '';'' \<notin> set s"
  shows "keyValues
           (''HostName='' @ h @ '';SharedAccessKeyName='' @ k @ '';SharedAccessKey='' @ s) =
         [''HostName'' \<mapsto> h, ''SharedAccessKeyName'' \<mapsto> k, ''SharedAccessKey'' \<mapsto> s]"
proof -
  have 1: "split_str CHR '';''
           (''HostName='' @ h @ '';SharedAccessKeyName='' @ k @ '';SharedAccessKey='' @ s) =
        [''HostName='' @ h, ''SharedAccessKeyName='' @ k, ''SharedAccessKey='' @ s]"
    using assms
      split_str_append [of "CHR '';''" "''HostName='' @ h"
        "''SharedAccessKeyName='' @ k @ '';SharedAccessKey='' @ s"]
      split_str_append [of "CHR '';''" "''SharedAccessKeyName='' @ k" "''SharedAccessKey='' @ s"]
      split_str_no_sep [of "CHR '';''" "''SharedAccessKey='' @ s"]
    by simp
  show ?thesis
    unfolding keyValues_def 1
    by (auto simp: keyValue_def fun_eq_iff)
qed

lemma create_standard_form:
  assumes "CHR '';'' \<notin> set h" "CHR '';'' \<notin> set k" "CHR '';'' \<notin> set s"
  shows "\<exists>d. create parseConnectionString
           (JStr (''HostName='' @ h @ '';SharedAccessKeyName='' @ k @ '';SharedAccessKey='' @ s))
           path = Inr d \<and>
         getProp d ''hostName'' = JStr h \<and>
         getProp d ''host'' = JStr (takeWhile (\<lambda>x. x \<noteq> CHR ''.'') h) \<and>
         getProp d ''sharedAccessKeyName'' = JStr k \<and>
         getProp d ''sharedAccessKey'' = JStr s"
proof -
  define cs where
    "cs = ''HostName='' @ h @ '';SharedAccessKeyName='' @ k @ '';SharedAccessKey='' @ s"
  have p: "parseConnectionString (String (JStr cs)) =
      Inr [''HostName'' \<mapsto> h, ''SharedAccessKeyName'' \<mapsto> k, ''SharedAccessKey'' \<mapsto> s]"
    unfolding cs_def parseConnectionString_def
    by (simp only: String.simps keyValues_standard [OF assms])
  have m: "\<not> isMissing (JStr cs)"
    by (simp add: cs_def isMissing_def)
  have "\<exists>d. create parseConnectionString (JStr cs) path = Inr d \<and>
         getProp d ''hostName'' = JStr h \<and>
         getProp d ''host'' = JStr (takeWhile (\<lambda>x. x \<noteq> CHR ''.'') h) \<and>
         getProp d ''sharedAccessKeyName'' = JStr k \<and>
         getProp d ''sharedAccessKey'' = JStr s"
    unfolding create_present [OF m] p
    by (simp add: getProp_def parsedField_def)
  then show ?thesis unfolding cs_def .
qed

text \<open>
  Claim C1. For a connection string that is present, \<^verbatim>\<open>create\<close> returns a descriptor
  whose \<^verbatim>\<open>hostName\<close> is the \<^verbatim>\<open>HostName\<close> the tokenizer found and whose \<^verbatim>\<open>host\<close> is
  the part of it before the first dot: for a host name that reads a, dot, rest with no dot
  in a, \<^verbatim>\<open>host\<close> is a. When the tokenizer found no \<^verbatim>\<open>HostName\<close>, or an empty one,
  \<^verbatim>\<open>host\<close> is the empty string. This holds of every tokenizer, whatever it does on other
  strings, once it has returned its mapping for this one; a tokenizer that never throws
  returns one for every string.
\<close>

theorem create_host_first_label:
  assumes "\<not> isMissing connectionString"
    and "parse (String connectionString) = Inr parsedCS"
  shows "\<exists>d. create parse connectionString path = Inr d \<and>
    getProp d ''hostName'' = parsedField parsedCS ''HostName'' \<and>
    (\<forall>h. parsedCS ''HostName'' = Some h \<longrightarrow>
       getProp d ''hostName'' = JStr h \<and>
       getProp d ''host'' = JStr (takeWhile (\<lambda>x. x \<noteq> CHR ''.'') h)) \<and>
    (\<forall>a rest. CHR ''.'' \<notin> set a \<and> parsedCS ''HostName'' = Some (a @ CHR ''.'' # rest) \<longrightarrow>
       getProp d ''hostName'' = JStr (a @ CHR ''.'' # rest) \<and> getProp d ''host'' = JStr a) \<and>
    (parsedCS ''HostName'' = None \<or> parsedCS ''HostName'' = Some [] \<longrightarrow>
       getProp d ''host'' = JStr [])"
  using assms
  by (auto simp: create_present getProp_def parsedField_def takeWhile_append)

theorem create_host_first_label_witness:
  "\<not> isMissing (JStr ''HostName=a.b.c;SharedAccessKeyName=k;SharedAccessKey=s'') \<and>
   parseConnectionString (String (JStr ''HostName=a.b.c;SharedAccessKeyName=k;SharedAccessKey=s''))
     = Inr [''HostName'' \<mapsto> ''a.b.c'', ''SharedAccessKeyName'' \<mapsto> ''k'',
            ''SharedAccessKey'' \<mapsto> ''s''] \<and>
   (\<exists>d. create parseConnectionString
          (JStr ''HostName=a.b.c;SharedAccessKeyName=k;SharedAccessKey=s'') JUndefined = Inr d \<and>
        getProp d ''hostName'' = JStr ''a.b.c'' \<and> getProp d ''host'' = JStr ''a'') \<and>
   \<not> isMissing (JStr ''SharedAccessKeyName=k'') \<and>
   parseConnectionString (String (JStr ''SharedAccessKeyName=k''))
     = Inr [''SharedAccessKeyName'' \<mapsto> ''k''] \<and>
   (\<exists>d. create parseConnectionString (JStr ''SharedAccessKeyName=k'') JUndefined = Inr d \<and>
        getProp d ''hostName'' = JUndefined \<and> getProp d ''host'' = JStr [])"
proof -
  have m1: "\<not> isMissing (JStr ''HostName=a.b.c;SharedAccessKeyName=k;SharedAccessKey=s'')"
    by (simp add: isMissing_def)
  have p1: "parseConnectionString
      (String (JStr ''HostName=a.b.c;SharedAccessKeyName=k;SharedAccessKey=s''))
     = Inr [''HostName'' \<mapsto> ''a.b.c'', ''SharedAccessKeyName'' \<mapsto> ''k'',
            ''SharedAccessKey'' \<mapsto> ''s'']"
    using keyValues_standard [of "''a.b.c''" "''k''" "''s''"]
    by (simp add: parseConnectionString_def)
  have m2: "\<not> isMissing (JStr ''SharedAccessKeyName=k'')"
    by (simp add: isMissing_def)
  have p2: "parseConnectionString (String (JStr ''SharedAccessKeyName=k''))
     = Inr [''SharedAccessKeyName'' \<mapsto> ''k'']"
    by (auto simp: parseConnectionString_def keyValues_def keyValue_def fun_eq_iff)
  have a: "\<exists>d. create parseConnectionString
          (JStr ''HostName=a.b.c;SharedAccessKeyName=k;SharedAccessKey=s'') JUndefined = Inr d \<and>
        getProp d ''hostName'' = JStr ''a.b.c'' \<and> getProp d ''host'' = JStr ''a''"
    using create_host_first_label [where parse = parseConnectionString, OF m1 p1, of JUndefined]
    by (elim exE) (simp add: parsedField_def)
  have b: "\<exists>d. create parseConnectionString (JStr ''SharedAccessKeyName=k'') JUndefined = Inr d \<and>
        getProp d ''hostName'' = JUndefined \<and> getProp d ''host'' = JStr []"
    using create_host_first_label [where parse = parseConnectionString, OF m2 p2, of JUndefined]
    by (elim exE) (simp add: parsedField_def)
  from m1 p1 a m2 p2 b show ?thesis by blast
qed

text \<open>
  Claim C4. For a connection string that is present and that the tokenizer has returned a
  mapping for, the \<^verbatim>\<open>entityPath\<close> of the descriptor \<^verbatim>\<open>create\<close> returns is \<^verbatim>\<open>path\<close> when
  \<^verbatim>\<open>path\<close> is truthy and the literal \<^verbatim>\<open>"messages/events"\<close> when \<^verbatim>\<open>path\<close> is left out
  or falsy; it is never the empty string, nor any other falsy value. The same holds of
  every descriptor \<^verbatim>\<open>create\<close> returns at all.
\<close>

theorem create_entityPath_default:
  assumes "\<not> isMissing connectionString"
    and "parse (String connectionString) = Inr parsedCS"
  shows "(\<exists>d. create parse connectionString path = Inr d \<and>
      getProp d ''entityPath'' = (if truthy path then path else JStr ''messages/events'') \<and>
      getProp d ''entityPath'' \<noteq> JStr [] \<and>
      truthy (getProp d ''entityPath'')) \<and>
    (\<forall>parse' connectionString' d'. create parse' connectionString' path = Inr d' \<longrightarrow>
      getProp d' ''entityPath'' = (if truthy path then path else JStr ''messages/events'') \<and>
      getProp d' ''entityPath'' \<noteq> JStr [] \<and>
      truthy (getProp d' ''entityPath''))"
proof -
  have 1: "\<exists>d. create parse connectionString path = Inr d \<and>
      getProp d ''entityPath'' = (if truthy path then path else JStr ''messages/events'') \<and>
      getProp d ''entityPath'' \<noteq> JStr [] \<and>
      truthy (getProp d ''entityPath'')"
    using assms by (auto simp: create_present getProp_def)
  have 2: "getProp d' ''entityPath'' = (if truthy path then path else JStr ''messages/events'') \<and>
      getProp d' ''entityPath'' \<noteq> JStr [] \<and>
      truthy (getProp d' ''entityPath'')"
    if r: "create parse' connectionString' path = Inr d'" for parse' connectionString' d'
  proof -
    from create_Inr_present [OF r] obtain parsedCS' where
      m: "\<not> isMissing connectionString'" and p: "parse' (String connectionString') = Inr parsedCS'"
      by blast
    from r show ?thesis
      unfolding create_present [OF m] p by (auto simp: getProp_def)
  qed
  from 1 2 show ?thesis by blast
qed

theorem create_entityPath_default_witness:
  "\<not> isMissing (JStr ''HostName=h;SharedAccessKeyName=k;SharedAccessKey=s'') \<and>
   parseConnectionString (String (JStr ''HostName=h;SharedAccessKeyName=k;SharedAccessKey=s''))
     = Inr [''HostName'' \<mapsto> ''h'', ''SharedAccessKeyName'' \<mapsto> ''k'',
            ''SharedAccessKey'' \<mapsto> ''s''] \<and>
   (\<exists>d. create parseConnectionString
          (JStr ''HostName=h;SharedAccessKeyName=k;SharedAccessKey=s'') JUndefined = Inr d \<and>
        getProp d ''entityPath'' = JStr ''messages/events'') \<and>
   (\<exists>d. create parseConnectionString
          (JStr ''HostName=h;SharedAccessKeyName=k;SharedAccessKey=s'') (JStr ''custom/path'')
          = Inr d \<and>
        getProp d ''entityPath'' = JStr ''custom/path'')"
proof -
  have m: "\<not> isMissing (JStr ''HostName=h;SharedAccessKeyName=k;SharedAccessKey=s'')"
    by (simp add: isMissing_def)
  have p: "parseConnectionString
      (String (JStr ''HostName=h;SharedAccessKeyName=k;SharedAccessKey=s''))
     = Inr [''HostName'' \<mapsto> ''h'', ''SharedAccessKeyName'' \<mapsto> ''k'',
            ''SharedAccessKey'' \<mapsto> ''s'']"
    using keyValues_standard [of "''h''" "''k''" "''s''"]
    by (simp add: parseConnectionString_def)
  have a: "\<exists>d. create parseConnectionString
          (JStr ''HostName=h;SharedAccessKeyName=k;SharedAccessKey=s'') JUndefined = Inr d \<and>
        getProp d ''entityPath'' = JStr ''messages/events''"
    using create_entityPath_default
      [where parse = parseConnectionString, OF m p, of JUndefined, THEN conjunct1]
    by (elim exE) simp
  have b: "\<exists>d. create parseConnectionString
          (JStr ''HostName=h;SharedAccessKeyName=k;SharedAccessKey=s'') (JStr ''custom/path'')
          = Inr d \<and>
        getProp d ''entityPath'' = JStr ''custom/path''"
    using create_entityPath_default
      [where parse = parseConnectionString, OF m p, of "JStr ''custom/path''", THEN conjunct1]
    by (elim exE) simp
  from m p a b show ?thesis by blast
qed

text \<open>
  Claim C6. When the connection string is \<^verbatim>\<open>null\<close>, \<^verbatim>\<open>undefined\<close> or the empty string,
  \<^verbatim>\<open>create\<close> throws MissingParameterError for \<^verbatim>\<open>connectionString\<close>, before the tokenizer
  is called. On every other input \<^verbatim>\<open>create\<close> has no failure of its own: it throws only
  what the tokenizer throws, and once the tokenizer has returned a mapping it returns the
  descriptor of lines 62 to 70, with all seven properties, whichever keys the mapping
  lacks. With the tokenizer as the spec describes it, which returns a mapping for every
  string, \<^verbatim>\<open>create\<close> therefore throws exactly when the connection string is \<^verbatim>\<open>null\<close>,
  \<^verbatim>\<open>undefined\<close> or empty, and returns that descriptor otherwise.
\<close>

theorem create_missing_iff:
  "(connectionString = JUndefined \<or> connectionString = JNull \<or> connectionString = JStr [] \<longrightarrow>
      create parse connectionString path = Inl (MissingParameterError ''connectionString'')) \<and>
   (\<forall>parsedCS.
      \<not> (connectionString = JUndefined \<or> connectionString = JNull \<or> connectionString = JStr []) \<and>
      parse (String connectionString) = Inr parsedCS \<longrightarrow>
      create parse connectionString path =
        Inr (JObj
          [(''connectionString'', JStr (String connectionString)),
           (''hostName'', parsedField parsedCS ''HostName''),
           (''host'',
              (case parsedCS ''HostName'' of
                 None \<Rightarrow> JStr []
               | Some hostName \<Rightarrow> JStr (takeWhile (\<lambda>x. x \<noteq> CHR ''.'') hostName))),
           (''entityPath'', (if truthy path then path else JStr ''messages/events'')),
           (''sharedAccessKeyName'', parsedField parsedCS ''SharedAccessKeyName''),
           (''sharedAccessKey'', parsedField parsedCS ''SharedAccessKey''),
           (''deviceId'', parsedField parsedCS ''DeviceId'')])) \<and>
   (\<forall>e. create parse connectionString path = Inl e \<longrightarrow>
      ((connectionString = JUndefined \<or> connectionString = JNull \<or> connectionString = JStr []) \<and>
         e = MissingParameterError ''connectionString'') \<or>
      (\<not> (connectionString = JUndefined \<or> connectionString = JNull \<or> connectionString = JStr []) \<and>
         parse (String connectionString) = Inl e)) \<and>
   ((\<exists>e. create parseConnectionString connectionString path = Inl e) =
      (connectionString = JUndefined \<or> connectionString = JNull \<or> connectionString = JStr [])) \<and>
   (\<not> (connectionString = JUndefined \<or> connectionString = JNull \<or> connectionString = JStr []) \<longrightarrow>
      create parseConnectionString connectionString path =
        Inr (JObj
          [(''connectionString'', JStr (String connectionString)),
           (''hostName'', parsedField (keyValues (String connectionString)) ''HostName''),
           (''host'',
              (case keyValues (String connectionString) ''HostName'' of
                 None \<Rightarrow> JStr []
               | Some hostName \<Rightarrow> JStr (takeWhile (\<lambda>x. x \<noteq> CHR ''.'') hostName))),
           (''entityPath'', (if truthy path then path else JStr ''messages/events'')),
           (''sharedAccessKeyName'',
              parsedField (keyValues (String connectionString)) ''SharedAccessKeyName''),
           (''sharedAccessKey'', parsedField (keyValues (String connectionString)) ''SharedAccessKey''),
           (''deviceId'', parsedField (keyValues (String connectionString)) ''DeviceId'')]))"
proof (cases "isMissing connectionString")
  case True
  then have c: "create parse connectionString path = Inl (MissingParameterError ''connectionString'')"
    "create parseConnectionString connectionString path =
       Inl (MissingParameterError ''connectionString'')"
    by (simp_all add: create_missing)
  from True have "connectionString = JUndefined \<or> connectionString = JNull \<or>
      connectionString = JStr []"
    by (simp add: isMissing_def)
  with c show ?thesis by auto
next
  case False
  then have n: "\<not> (connectionString = JUndefined \<or> connectionString = JNull \<or>
      connectionString = JStr [])"
    by (simp add: isMissing_def)
  have 1: "create parse connectionString path =
        Inr (JObj
          [(''connectionString'', JStr (String connectionString)),
           (''hostName'', parsedField parsedCS ''HostName''),
           (''host'',
              (case parsedCS ''HostName'' of
                 None \<Rightarrow> JStr []
               | Some hostName \<Rightarrow> JStr (takeWhile (\<lambda>x. x \<noteq> CHR ''.'') hostName))),
           (''entityPath'', (if truthy path then path else JStr ''messages/events'')),
           (''sharedAccessKeyName'', parsedField parsedCS ''SharedAccessKeyName''),
           (''sharedAccessKey'', parsedField parsedCS ''SharedAccessKey''),
           (''deviceId'', parsedField parsedCS ''DeviceId'')])"
    if "parse (String connectionString) = Inr parsedCS" for parsedCS
    using that by (simp add: create_present [OF False])
  have 2: "parse (String connectionString) = Inl e"
    if "create parse connectionString path = Inl e" for e
    using that unfolding create_present [OF False]
    by (cases "parse (String connectionString)") simp_all
  have 3: "create parseConnectionString connectionString path =
        Inr (JObj
          [(''connectionString'', JStr (String connectionString)),
           (''hostName'', parsedField (keyValues (String connectionString)) ''HostName''),
           (''host'',
              (case keyValues (String connectionString) ''HostName'' of
                 None \<Rightarrow> JStr []
               | Some hostName \<Rightarrow> JStr (takeWhile (\<lambda>x. x \<noteq> CHR ''.'') hostName))),
           (''entityPath'', (if truthy path then path else JStr ''messages/events'')),
           (''sharedAccessKeyName'',
              parsedField (keyValues (String connectionString)) ''SharedAccessKeyName''),
           (''sharedAccessKey'', parsedField (keyValues (String connectionString)) ''SharedAccessKey''),
           (''deviceId'', parsedField (keyValues (String connectionString)) ''DeviceId'')])"
    by (simp add: create_present [OF False] parseConnectionString_def)
  then have 4: "\<not> (\<exists>e. create parseConnectionString connectionString path = Inl e)"
    by simp
  from n 1 2 3 4 show ?thesis by blast
qed

theorem create_missing_iff_witness:
  "create parseConnectionString JUndefined JUndefined =
     Inl (MissingParameterError ''connectionString'') \<and>
   create parseConnectionString (JStr []) (JStr ''p'') =
     Inl (MissingParameterError ''connectionString'') \<and>
   create parseConnectionString (JStr ''Endpoint'') JUndefined =
     Inr (JObj
       [(''connectionString'', JStr ''Endpoint''),
        (''hostName'', JUndefined),
        (''host'', JStr []),
        (''entityPath'', JStr ''messages/events''),
        (''sharedAccessKeyName'', JUndefined),
        (''sharedAccessKey'', JUndefined),
        (''deviceId'', JUndefined)])"
proof -
  have a: "create parseConnectionString JUndefined JUndefined =
      Inl (MissingParameterError ''connectionString'')"
    using create_missing_iff [of JUndefined parseConnectionString JUndefined, THEN conjunct1]
    by simp
  have b: "create parseConnectionString (JStr []) (JStr ''p'') =
      Inl (MissingParameterError ''connectionString'')"
    using create_missing_iff [of "JStr []" parseConnectionString "JStr ''p''", THEN conjunct1]
    by simp
  have k: "keyValues ''Endpoint'' = Map.empty"
    by (simp add: keyValues_def keyValue_def)
  have c: "create parseConnectionString (JStr ''Endpoint'') JUndefined =
     Inr (JObj
       [(''connectionString'', JStr ''Endpoint''),
        (''hostName'', JUndefined),
        (''host'', JStr []),
        (''entityPath'', JStr ''messages/events''),
        (''sharedAccessKeyName'', JUndefined),
        (''sharedAccessKey'', JUndefined),
        (''deviceId'', JUndefined)])"
    using create_missing_iff [of "JStr ''Endpoint''" parseConnectionString JUndefined,
        THEN conjunct2, THEN conjunct2, THEN conjunct2, THEN conjunct2]
    by (simp add: k parsedField_def)
  from a b c show ?thesis by blast
qed

end
